theory Spec2Isabelle
  imports Complex_Main
begin

section \<open>Values, exceptions and text\<close>

text \<open>
  Python values that occur in exception detail dictionaries.
\<close>

datatype pyval = PyNone | PyInt int | PyStr string

text \<open>
  The exception classes imported from \<^verbatim>\<open>server.app.shared.exceptions\<close> (the module is
  not among the sources) and Python's built-in ones. \<open>OverflowError\<close> is the built-in
  raised by float arithmetic; \<open>OtherException\<close> is any other class that derives from
  \<^verbatim>\<open>Exception\<close>; \<open>OtherBaseException\<close> is a class that derives from
  \<^verbatim>\<open>BaseException\<close> but not from \<^verbatim>\<open>Exception\<close>: \<^verbatim>\<open>asyncio.CancelledError\<close>,
  \<^verbatim>\<open>KeyboardInterrupt\<close>, \<^verbatim>\<open>SystemExit\<close>, \<^verbatim>\<open>GeneratorExit\<close>.
\<close>

datatype exn_kind =
    NotFoundException
  | ValidationException
  | ProviderException
  | CalculatorException
  | ApplicationException
  | OverflowError
  | OtherException
  | OtherBaseException

text \<open>
  Whether a clause \<^verbatim>\<open>except Exception\<close> catches an exception of the kind.
\<close>

fun is_Exception :: "exn_kind \<Rightarrow> bool" where
  "is_Exception OtherBaseException = False"
| "is_Exception k = True"

text \<open>
  Modelled from the spec: the exception classes of \<^verbatim>\<open>server.app.shared.exceptions\<close> are
  missing from the sources. Each exception carries a message and a detail dictionary
  (empty when the constructor is called with a message only), and \<^verbatim>\<open>str(e)\<close> is its
  message.
\<close>

record exn =
  exn_kind :: exn_kind
  exn_message :: string
  exn_details :: "string \<rightharpoonup> pyval"

definition raise_exn :: "exn_kind \<Rightarrow> string \<Rightarrow> (string \<rightharpoonup> pyval) \<Rightarrow> exn" where
  "raise_exn k m d = \<lparr>exn_kind = k, exn_message = m, exn_details = d\<rparr>"

definition str_exn :: "exn \<Rightarrow> string" where
  "str_exn e = exn_message e"

text \<open>
  Python's truthiness of an \<^verbatim>\<open>Optional[float]\<close>: \<^verbatim>\<open>None\<close> and \<^verbatim>\<open>0.0\<close> are false.
  Floats are modelled as exact reals (no rounding, no infinities, no not-a-number); no
  statement below depends on rounding.
\<close>

definition truthy :: "real option \<Rightarrow> bool" where
  "truthy x = (case x of None \<Rightarrow> False | Some v \<Rightarrow> v \<noteq> 0)"

text \<open>
  \<^verbatim>\<open>x ** 2\<close> on floats raises \<^verbatim>\<open>OverflowError\<close> when the result is out of the range
  of the finite doubles, whose largest is \<open>float_max\<close>; the message is that of
  \<^verbatim>\<open>errno\<close> 34 (its text is the platform's, here Linux's). Products and comparisons
  of floats raise nothing.
\<close>

definition float_max :: real where
  "float_max = (2 ^ 53 - 1) * 2 ^ 971"

definition overflow_message :: string where
  "overflow_message =
     ''(34, '' @ [CHR 0x27] @ ''Numerical result out of range'' @ [CHR 0x27] @ '')''"

definition float_pow2 :: "real \<Rightarrow> exn + real" where
  "float_pow2 x =
     (if x ^ 2 > float_max
      then Inl \<lparr>exn_kind = OverflowError, exn_message = overflow_message,
                exn_details = Map.empty\<rparr>
      else Inr (x ^ 2))"

text \<open>
  \<^verbatim>\<open>str(n)\<close> of a Python integer.
\<close>

definition digit_char :: "nat \<Rightarrow> char" where
  "digit_char d = ''0123456789'' ! d"

function str_nat :: "nat \<Rightarrow> string" where
  "str_nat n = (if n < 10 then [digit_char n] else str_nat (n div 10) @ [digit_char (n mod 10)])"
  by pat_completeness auto
termination
  by (relation "measure id") auto

declare str_nat.simps [simp del]

definition str_int :: "int \<Rightarrow> string" where
  "str_int i = (if i < 0 then CHR ''-'' # str_nat (nat (- i)) else str_nat (nat i))"

text \<open>
  The Korean string literals of the calculators, as the bytes of their UTF-8 encoding.
  In order: "the data follows a normal distribution"; "the mean is " ... "(copula)";
  "score(" ... ") exceeds threshold(" ... ")"; "a rising trend is observed";
  "the trend strength is medium"; "an anomaly was detected"; "further review is needed";
  "the data is within the normal range"; "value: "; "score: ".
\<close>

definition msg_normal_distribution :: string where
  "msg_normal_distribution =
     [CHR 0xEB, CHR 0x8D, CHR 0xB0, CHR 0xEC, CHR 0x9D, CHR 0xB4, CHR 0xED, CHR 0x84, CHR 0xB0,
      CHR 0xEA, CHR 0xB0, CHR 0x80] @ '' '' @
     [CHR 0xEC, CHR 0xA0, CHR 0x95, CHR 0xEA, CHR 0xB7, CHR 0x9C] @ '' '' @
     [CHR 0xEB, CHR 0xB6, CHR 0x84, CHR 0xED, CHR 0x8F, CHR 0xAC, CHR 0xEB, CHR 0xA5, CHR 0xBC] @ '' '' @
     [CHR 0xEB, CHR 0x94, CHR 0xB0, CHR 0xEB, CHR 0xA6, CHR 0x85, CHR 0xEB, CHR 0x8B, CHR 0x88,
      CHR 0xEB, CHR 0x8B, CHR 0xA4]"

definition msg_mean_prefix :: string where
  "msg_mean_prefix =
     [CHR 0xED, CHR 0x8F, CHR 0x89, CHR 0xEA, CHR 0xB7, CHR 0xA0, CHR 0xEA, CHR 0xB0, CHR 0x92,
      CHR 0xEC, CHR 0x9D, CHR 0x80] @ '' ''"

definition msg_mean_suffix :: string where
  "msg_mean_suffix =
     [CHR 0xEC, CHR 0x9E, CHR 0x85, CHR 0xEB, CHR 0x8B, CHR 0x88, CHR 0xEB, CHR 0x8B, CHR 0xA4]"

definition msg_score_open :: string where
  "msg_score_open = [CHR 0xEC, CHR 0xA0, CHR 0x90, CHR 0xEC, CHR 0x88, CHR 0x98] @ ''(''"

definition msg_threshold_open :: string where
  "msg_threshold_open =
     '')'' @ [CHR 0xEA, CHR 0xB0, CHR 0x80] @ '' '' @
     [CHR 0xEC, CHR 0x9E, CHR 0x84, CHR 0xEA, CHR 0xB3, CHR 0x84, CHR 0xEA, CHR 0xB0, CHR 0x92] @ ''(''"

definition msg_exceeds :: string where
  "msg_exceeds =
     '')'' @ [CHR 0xEC, CHR 0x9D, CHR 0x84] @ '' '' @
     [CHR 0xEC, CHR 0xB4, CHR 0x88, CHR 0xEA, CHR 0xB3, CHR 0xBC, CHR 0xED, CHR 0x95, CHR 0xA9,
      CHR 0xEB, CHR 0x8B, CHR 0x88, CHR 0xEB, CHR 0x8B, CHR 0xA4]"

definition msg_rising_trend :: string where
  "msg_rising_trend =
     [CHR 0xEC, CHR 0x83, CHR 0x81, CHR 0xEC, CHR 0x8A, CHR 0xB9] @ '' '' @
     [CHR 0xED, CHR 0x8A, CHR 0xB8, CHR 0xEB, CHR 0xA0, CHR 0x8C, CHR 0xEB, CHR 0x93, CHR 0x9C,
      CHR 0xEA, CHR 0xB0, CHR 0x80] @ '' '' @
     [CHR 0xEA, CHR 0xB4, CHR 0x80, CHR 0xEC, CHR 0xB0, CHR 0xB0, CHR 0xEB, CHR 0x90, CHR 0xA9,
      CHR 0xEB, CHR 0x8B, CHR 0x88, CHR 0xEB, CHR 0x8B, CHR 0xA4]"

definition msg_trend_strength :: string where
  "msg_trend_strength =
     [CHR 0xED, CHR 0x8A, CHR 0xB8, CHR 0xEB, CHR 0xA0, CHR 0x8C, CHR 0xEB, CHR 0x93, CHR 0x9C] @ '' '' @
     [CHR 0xEA, CHR 0xB0, CHR 0x95, CHR 0xEB, CHR 0x8F, CHR 0x84, CHR 0xEB, CHR 0x8A, CHR 0x94] @ '' '' @
     [CHR 0xEC, CHR 0xA4, CHR 0x91, CHR 0xEA, CHR 0xB0, CHR 0x84] @ '' '' @
     [CHR 0xEC, CHR 0x88, CHR 0x98, CHR 0xEC, CHR 0xA4, CHR 0x80, CHR 0xEC, CHR 0x9E, CHR 0x85,
      CHR 0xEB, CHR 0x8B, CHR 0x88, CHR 0xEB, CHR 0x8B, CHR 0xA4]"

definition msg_anomaly_detected :: string where
  "msg_anomaly_detected =
     [CHR 0xEC, CHR 0x9D, CHR 0xB4, CHR 0xEC, CHR 0x83, CHR 0x81, CHR 0xEC, CHR 0xB9, CHR 0x98,
      CHR 0xEA, CHR 0xB0, CHR 0x80] @ '' '' @
     [CHR 0xEA, CHR 0xB0, CHR 0x90, CHR 0xEC, CHR 0xA7, CHR 0x80, CHR 0xEB, CHR 0x90, CHR 0x98,
      CHR 0xEC, CHR 0x97, CHR 0x88, CHR 0xEC, CHR 0x8A, CHR 0xB5, CHR 0xEB, CHR 0x8B, CHR 0x88,
      CHR 0xEB, CHR 0x8B, CHR 0xA4]"

definition msg_review_needed :: string where
  "msg_review_needed =
     [CHR 0xEC, CHR 0xB6, CHR 0x94, CHR 0xEA, CHR 0xB0, CHR 0x80] @ '' '' @
     [CHR 0xEA, CHR 0xB2, CHR 0x80, CHR 0xED, CHR 0x86, CHR 0xA0, CHR 0xEA, CHR 0xB0, CHR 0x80] @ '' '' @
     [CHR 0xED, CHR 0x95, CHR 0x84, CHR 0xEC, CHR 0x9A, CHR 0x94, CHR 0xED, CHR 0x95, CHR 0xA9,
      CHR 0xEB, CHR 0x8B, CHR 0x88, CHR 0xEB, CHR 0x8B, CHR 0xA4]"

definition msg_normal_range :: string where
  "msg_normal_range =
     [CHR 0xEC, CHR 0xA0, CHR 0x95, CHR 0xEC, CHR 0x83, CHR 0x81] @ '' '' @
     [CHR 0xEB, CHR 0xB2, CHR 0x94, CHR 0xEC, CHR 0x9C, CHR 0x84] @ '' '' @
     [CHR 0xEB, CHR 0x82, CHR 0xB4, CHR 0xEC, CHR 0x9D, CHR 0x98] @ '' '' @
     [CHR 0xEB, CHR 0x8D, CHR 0xB0, CHR 0xEC, CHR 0x9D, CHR 0xB4, CHR 0xED, CHR 0x84, CHR 0xB0,
      CHR 0xEC, CHR 0x9E, CHR 0x85, CHR 0xEB, CHR 0x8B, CHR 0x88, CHR 0xEB, CHR 0x8B, CHR 0xA4]"

definition msg_value_label :: string where
  "msg_value_label = [CHR 0xEA, CHR 0xB0, CHR 0x92] @ '': ''"

definition msg_score_label :: string where
  "msg_score_label = [CHR 0xEC, CHR 0xA0, CHR 0x90, CHR 0xEC, CHR 0x88, CHR 0x98] @ '': ''"


section \<open>The sample analysis calculator\<close>

text \<open>
  \<^verbatim>\<open>SampleCalculatorInput\<close> and \<^verbatim>\<open>SampleCalculatorOutput\<close>, with the fields the
  calculator reads and writes. An absent analysis type is \<open>None\<close>.
\<close>

record calculator_input =
  ci_value :: real
  ci_score :: "real option"
  ci_threshold :: "real option"
  ci_analysis_type :: "string option"

record calculator_output =
  co_metrics :: "string \<rightharpoonup> real"
  co_insights :: "string list"

text \<open>
  \<^verbatim>\<open>SampleAnalysisCalculator.validate_input\<close>: the two range checks, each raising a
  \<^verbatim>\<open>CalculatorException\<close> built from a message alone.
\<close>

definition calculator_validate_input :: "calculator_input \<Rightarrow> exn + unit" where
  "calculator_validate_input inp =
     (if ci_value inp < 0
      then Inl (raise_exn CalculatorException ''Value must be non-negative'' Map.empty)
      else (case ci_score inp of
              None \<Rightarrow> Inr ()
            | Some s \<Rightarrow>
                if \<not> (0 \<le> s \<and> s \<le> 1)
                then Inl (raise_exn CalculatorException ''Score must be between 0 and 1'' Map.empty)
                else Inr ()))"

text \<open>
  \<^verbatim>\<open>_statistical_analysis\<close>. The parameter \<open>fmt2f\<close> is Python's \<^verbatim>\<open>format(x, ".2f")\<close>.
  The only operation of the metrics dictionary that can raise is the square of the
  variance. The guard \<^verbatim>\<open>if input_data.threshold and input_data.score\<close> tests
  truthiness.
\<close>

definition statistical_analysis ::
  "(real \<Rightarrow> string) \<Rightarrow> calculator_input \<Rightarrow> exn + ((string \<rightharpoonup> real) \<times> string list)" where
  "statistical_analysis fmt2f inp =
     (case float_pow2 (ci_value inp * 0.1) of
        Inl e \<Rightarrow> Inl e
      | Inr variance \<Rightarrow>
          (let metrics = [''mean'' \<mapsto> ci_value inp,
                          ''median'' \<mapsto> ci_value inp * 0.95,
                          ''std_dev'' \<mapsto> ci_value inp * 0.1,
                          ''variance'' \<mapsto> variance];
               insights = [msg_normal_distribution,
                           msg_mean_prefix @ fmt2f (ci_value inp) @ msg_mean_suffix];
               insights' =
                 (if truthy (ci_threshold inp) \<and> truthy (ci_score inp)
                  then (case (ci_score inp, ci_threshold inp) of
                          (Some s, Some t) \<Rightarrow>
                             if s > t
                             then insights @ [msg_score_open @ fmt2f s @ msg_threshold_open
                                                @ fmt2f t @ msg_exceeds]
                             else insights
                        | _ \<Rightarrow> insights)
                  else insights)
           in Inr (metrics, insights')))"

text \<open>\<^verbatim>\<open>_trend_analysis\<close>: constants.\<close>

definition trend_analysis :: "calculator_input \<Rightarrow> (string \<rightharpoonup> real) \<times> string list" where
  "trend_analysis inp =
     ([''trend_direction'' \<mapsto> 1.0, ''trend_strength'' \<mapsto> 0.7, ''change_rate'' \<mapsto> 0.05],
      [msg_rising_trend, msg_trend_strength])"

text \<open>
  \<^verbatim>\<open>_anomaly_detection\<close>. The guard \<^verbatim>\<open>if input_data.score and input_data.score < 0.3\<close>
  tests the truthiness of the score first.
\<close>

definition anomaly_detection :: "calculator_input \<Rightarrow> (string \<rightharpoonup> real) \<times> string list" where
  "anomaly_detection inp =
     (let is_anomaly =
            (truthy (ci_score inp) \<and> (case ci_score inp of None \<Rightarrow> False | Some s \<Rightarrow> s < 0.3));
          metrics = [''anomaly_score'' \<mapsto> (if is_anomaly then 0.2 else 0.8),
                     ''is_anomaly'' \<mapsto> (if is_anomaly then 1.0 else 0.0),
                     ''confidence'' \<mapsto> 0.85];
          insights = (if is_anomaly then [msg_anomaly_detected, msg_review_needed]
                      else [msg_normal_range])
      in (metrics, insights))"

text \<open>
  \<^verbatim>\<open>_default_analysis\<close>. The parameter \<open>strf\<close> is Python's \<^verbatim>\<open>str\<close> on floats;
  \<^verbatim>\<open>score or 0.0\<close> and \<^verbatim>\<open>score or 'N/A'\<close> take the right operand when the score is
  \<^verbatim>\<open>None\<close> or zero.
\<close>

definition default_analysis ::
  "(real \<Rightarrow> string) \<Rightarrow> calculator_input \<Rightarrow> (string \<rightharpoonup> real) \<times> string list" where
  "default_analysis strf inp =
     ([''value'' \<mapsto> ci_value inp,
       ''score'' \<mapsto> (case ci_score inp of
                       None \<Rightarrow> 0.0
                     | Some s \<Rightarrow> if s \<noteq> 0 then s else 0.0)],
      [msg_value_label @ strf (ci_value inp),
       msg_score_label @ (case ci_score inp of
                            None \<Rightarrow> ''N/A''
                          | Some s \<Rightarrow> if s \<noteq> 0 then strf s else ''N/A'')])"

text \<open>
  The body of the \<^verbatim>\<open>try\<close> block of \<^verbatim>\<open>calculate\<close>: validation, dispatch on the analysis
  type, construction of the output, and \<^verbatim>\<open>validate_output\<close>. The latter is inherited
  from \<^verbatim>\<open>BaseCalculator\<close>, which is not among the sources, and is the parameter \<open>vo\<close>.
\<close>

definition calculate_dispatch ::
  "(real \<Rightarrow> string) \<Rightarrow> (real \<Rightarrow> string) \<Rightarrow> calculator_input
     \<Rightarrow> exn + ((string \<rightharpoonup> real) \<times> string list)" where
  "calculate_dispatch fmt2f strf inp =
     (if ci_analysis_type inp = Some ''statistical'' then statistical_analysis fmt2f inp
      else if ci_analysis_type inp = Some ''trend'' then Inr (trend_analysis inp)
      else if ci_analysis_type inp = Some ''anomaly'' then Inr (anomaly_detection inp)
      else Inr (default_analysis strf inp))"

definition calculate_try ::
  "(real \<Rightarrow> string) \<Rightarrow> (real \<Rightarrow> string) \<Rightarrow> (calculator_output \<Rightarrow> exn + unit)
     \<Rightarrow> calculator_input \<Rightarrow> exn + calculator_output" where
  "calculate_try fmt2f strf vo inp =
     (case calculator_validate_input inp of
        Inl e \<Rightarrow> Inl e
      | Inr _ \<Rightarrow>
          (case calculate_dispatch fmt2f strf inp of
             Inl e \<Rightarrow> Inl e
           | Inr (metrics, insights) \<Rightarrow>
               (let output = \<lparr>co_metrics = metrics, co_insights = insights\<rparr>
                in (case vo output of Inl e \<Rightarrow> Inl e | Inr _ \<Rightarrow> Inr output))))"

text \<open>
  \<^verbatim>\<open>calculate\<close>: the clause \<^verbatim>\<open>except Exception\<close> replaces every exception of the
  block that derives from \<^verbatim>\<open>Exception\<close> by a \<^verbatim>\<open>CalculatorException\<close> whose details
  hold the analysis type; any other exception leaves \<^verbatim>\<open>calculate\<close> as it is.
\<close>

definition analysis_type_val :: "calculator_input \<Rightarrow> pyval" where
  "analysis_type_val inp = (case ci_analysis_type inp of None \<Rightarrow> PyNone | Some s \<Rightarrow> PyStr s)"

definition calculate ::
  "(real \<Rightarrow> string) \<Rightarrow> (real \<Rightarrow> string) \<Rightarrow> (calculator_output \<Rightarrow> exn + unit)
     \<Rightarrow> calculator_input \<Rightarrow> exn + calculator_output" where
  "calculate fmt2f strf vo inp =
     (case calculate_try fmt2f strf vo inp of
        Inr output \<Rightarrow> Inr output
      | Inl e \<Rightarrow>
          if is_Exception (exn_kind e)
          then Inl (raise_exn CalculatorException
                      (''Analysis calculation failed: '' @ str_exn e)
                      [''analysis_type'' \<mapsto> analysis_type_val inp])
          else Inl e)"

text \<open>
  A finite double whose variance is out of range, used as an example below.
\<close>

definition huge_value :: real where
  "huge_value = 2 ^ 600"




section \<open>The sample data provider\<close>

text \<open>
  \<^verbatim>\<open>SampleProviderInput\<close> and \<^verbatim>\<open>SampleProviderOutput\<close>, with the fields the provider
  reads and writes.
\<close>

record provider_input =
  pi_data_id :: int

record provider_output =
  po_id :: int
  po_name :: string
  po_value :: real
  po_score :: "real option"

text \<open>
  \<^verbatim>\<open>SampleDataProvider.validate_input\<close>: the body is \<^verbatim>\<open>pass\<close>; the checks are a
  \<^verbatim>\<open>TODO\<close> comment.
\<close>

definition provider_validate_input :: "provider_input \<Rightarrow> exn + unit" where
  "provider_validate_input inp = Inr ()"

text \<open>
  The body of the \<^verbatim>\<open>try\<close> block of \<^verbatim>\<open>provide\<close>: the call of the instance's
  \<^verbatim>\<open>validate_input\<close> (the parameter \<open>validate\<close>), then the dummy record. The query and
  the raise of \<^verbatim>\<open>NotFoundException\<close> are commented out in the source.
\<close>

definition provide_block ::
  "(provider_input \<Rightarrow> exn + unit) \<Rightarrow> provider_input \<Rightarrow> exn + provider_output" where
  "provide_block validate inp =
     (case validate inp of
        Inl e \<Rightarrow> Inl e
      | Inr _ \<Rightarrow>
          Inr \<lparr>po_id = pi_data_id inp,
               po_name = ''Sample Data '' @ str_int (pi_data_id inp),
               po_value = 42.5,
               po_score = Some 0.85\<rparr>)"

text \<open>
  The two \<^verbatim>\<open>except\<close> clauses of \<^verbatim>\<open>provide\<close> around a \<^verbatim>\<open>try\<close> block:
  \<^verbatim>\<open>NotFoundException\<close> is re-raised; the clause \<^verbatim>\<open>except Exception\<close> replaces every
  other exception that derives from \<^verbatim>\<open>Exception\<close> by a \<^verbatim>\<open>ProviderException\<close>; an
  exception that does not derive from \<^verbatim>\<open>Exception\<close> is not caught.
\<close>

definition provide_try ::
  "(provider_input \<Rightarrow> exn + provider_output) \<Rightarrow> provider_input \<Rightarrow> exn + provider_output" where
  "provide_try block inp =
     (case block inp of
        Inr output \<Rightarrow> Inr output
      | Inl e \<Rightarrow>
          if exn_kind e = NotFoundException then Inl e
          else if is_Exception (exn_kind e)
          then Inl (raise_exn ProviderException
                      (''Failed to provide data: '' @ str_exn e)
                      [''data_id'' \<mapsto> PyInt (pi_data_id inp)])
          else Inl e)"

text \<open>
  \<^verbatim>\<open>provide\<close>: the \<^verbatim>\<open>try\<close> block of the source under its \<^verbatim>\<open>except\<close> clauses. The
  parameter \<open>validate\<close> is the method \<^verbatim>\<open>self.validate_input\<close> that the block awaits;
  for \<^verbatim>\<open>SampleDataProvider\<close> itself it is \<open>provider_validate_input\<close>.
\<close>

definition provide ::
  "(provider_input \<Rightarrow> exn + unit) \<Rightarrow> provider_input \<Rightarrow> exn + provider_output" where
  "provide validate inp = provide_try (provide_block validate) inp"

text \<open>
  \<^verbatim>\<open>get_multiple\<close>: the list comprehension awaits \<^verbatim>\<open>self.provide\<close> for each identifier
  in order; an exception leaves the comprehension at once.
\<close>

fun get_multiple_with ::
  "(provider_input \<Rightarrow> exn + provider_output) \<Rightarrow> int list \<Rightarrow> exn + provider_output list" where
  "get_multiple_with p [] = Inr []"
| "get_multiple_with p (data_id # data_ids) =
     (case p \<lparr>pi_data_id = data_id\<rparr> of
        Inl e \<Rightarrow> Inl e
      | Inr output \<Rightarrow>
          (case get_multiple_with p data_ids of
             Inl e \<Rightarrow> Inl e
           | Inr outputs \<Rightarrow> Inr (output # outputs)))"

definition get_multiple ::
  "(provider_input \<Rightarrow> exn + unit) \<Rightarrow> int list \<Rightarrow> exn + provider_output list" where
  "get_multiple validate data_ids = get_multiple_with (provide validate) data_ids"

text \<open>
  Instances used as examples below: the positivity check that the \<^verbatim>\<open>TODO\<close> of
  \<^verbatim>\<open>validate_input\<close> describes; validations that find nothing, lose their
  connection, or are cancelled while they wait (the \<^verbatim>\<open>str\<close> of a
  \<^verbatim>\<open>CancelledError\<close> is empty); and a \<^verbatim>\<open>provide\<close> whose lookup of
  identifier 2 finds nothing, as the commented-out query would.
\<close>

definition positive_id_validation :: "provider_input \<Rightarrow> exn + unit" where
  "positive_id_validation inp =
     (if pi_data_id inp \<le> 0
      then Inl (raise_exn ValidationException ''data_id must be positive'' Map.empty)
      else Inr ())"




definition failing_provide :: "provider_input \<Rightarrow> exn + provider_output" where
  "failing_provide inp =
     (if pi_data_id inp = 2
      then Inl (raise_exn NotFoundException ''Data with id 2 not found'' Map.empty)
      else provide provider_validate_input inp)"


section \<open>The boundary: endpoint and exception handler\<close>

text \<open>
  Modelled from the spec: the Result envelope (\<^verbatim>\<open>server.app.shared\<close>) is missing from
  the sources. It is a tagged union of \<open>Success{data}\<close> and \<open>Failure{error, details}\<close>;
  the endpoint reads \<^verbatim>\<open>success\<close>, \<^verbatim>\<open>data\<close> and \<^verbatim>\<open>error\<close>.
\<close>

datatype 'a result = Success 'a | Failure string "string \<rightharpoonup> pyval"

text \<open>
  Modelled from the spec: the Service (\<^verbatim>\<open>sample_domain.service\<close>) is missing from the
  sources. On a propagated error it returns a failure with that error's message and
  details.
\<close>

definition failure_of :: "exn \<Rightarrow> 'a result" where
  "failure_of e = Failure (exn_message e) (exn_details e)"

text \<open>
  \<^verbatim>\<open>SampleAnalysisRequest\<close>, with the fields of the example in the endpoint's
  description.
\<close>

record sample_analysis_request =
  req_data_id :: int
  req_analysis_type :: string
  req_threshold :: "real option"
  req_include_details :: bool

definition example_request :: sample_analysis_request where
  "example_request =
     \<lparr>req_data_id = 7, req_analysis_type = ''statistical'',
      req_threshold = Some 0.5, req_include_details = True\<rparr>"

record http_exception =
  http_status_code :: nat
  http_detail :: string

definition HTTP_400_BAD_REQUEST :: nat where
  "HTTP_400_BAD_REQUEST = 400"

text \<open>
  \<^verbatim>\<open>analyze_data\<close>. The parameter \<open>execute\<close> is \<^verbatim>\<open>SampleDomainService(db).execute\<close>;
  a raised \<^verbatim>\<open>HTTPException\<close> is the left summand.
\<close>

definition analyze_data ::
  "(sample_analysis_request \<Rightarrow> pyval option \<Rightarrow> 'a result) \<Rightarrow> sample_analysis_request
     \<Rightarrow> (string \<rightharpoonup> pyval) option \<Rightarrow> http_exception + 'a" where
  "analyze_data execute request current_user =
     (let user_id = (case current_user of None \<Rightarrow> None | Some u \<Rightarrow> u ''user_id'');
          result = execute request user_id
      in (case result of
            Success d \<Rightarrow> Inr d
          | Failure err det \<Rightarrow>
              Inl \<lparr>http_status_code = HTTP_400_BAD_REQUEST, http_detail = err\<rparr>))"

text \<open>
  \<^verbatim>\<open>application_exception_handler\<close> of \<^verbatim>\<open>main.py\<close>. The parameter \<open>status_code\<close> is
  the attribute \<^verbatim>\<open>exc.status_code\<close>, set in the missing exceptions module.
\<close>

datatype body_value = BodyStr string | BodyMap "string \<rightharpoonup> pyval"

record json_response =
  resp_status_code :: nat
  resp_content :: "(string \<times> body_value) list"

definition application_exception_handler :: "(exn \<Rightarrow> nat) \<Rightarrow> exn \<Rightarrow> json_response" where
  "application_exception_handler status_code exc =
     \<lparr>resp_status_code = status_code exc,
      resp_content = [(''error'', BodyStr (exn_message exc)),
                      (''details'', BodyMap (exn_details exc))]\<rparr>"


section \<open>Properties of the calculator\<close>

lemmas calc_defs = calculate_def calculate_try_def calculate_dispatch_def
  calculator_validate_input_def statistical_analysis_def trend_analysis_def
  anomaly_detection_def default_analysis_def truthy_def raise_exn_def str_exn_def
  analysis_type_val_def float_pow2_def float_max_def Let_def

lemma calculator_validate_input_kind:
  "calculator_validate_input inp = Inl e \<Longrightarrow> exn_kind e = CalculatorException"
  by (auto simp: calculator_validate_input_def raise_exn_def split: if_splits option.splits)




lemma statistical_metrics_nonempty:
  assumes "statistical_analysis fmt2f inp = Inr r"
  shows "fst r \<noteq> Map.empty"
proof
  assume "fst r = Map.empty"
  then have "fst r ''mean'' = None" by simp
  with assms show False
    by (auto simp: statistical_analysis_def Let_def split: sum.splits)
qed

lemma trend_metrics_nonempty: "fst (trend_analysis inp) \<noteq> Map.empty"
proof
  assume "fst (trend_analysis inp) = Map.empty"
  then have "fst (trend_analysis inp) ''change_rate'' = None" by simp
  then show False by (simp add: trend_analysis_def)
qed

lemma anomaly_metrics_nonempty: "fst (anomaly_detection inp) \<noteq> Map.empty"
proof
  assume "fst (anomaly_detection inp) = Map.empty"
  then have "fst (anomaly_detection inp) ''confidence'' = None" by simp
  then show False by (simp add: anomaly_detection_def Let_def)
qed

lemma default_metrics_nonempty: "fst (default_analysis strf inp) \<noteq> Map.empty"
proof
  assume "fst (default_analysis strf inp) = Map.empty"
  then have "fst (default_analysis strf inp) ''score'' = None" by simp
  then show False by (simp add: default_analysis_def)
qed

lemma dispatch_metrics_nonempty:
  assumes "calculate_dispatch fmt2f strf inp = Inr r"
  shows "fst r \<noteq> Map.empty"
  using assms statistical_metrics_nonempty [of fmt2f inp r] trend_metrics_nonempty [of inp]
    anomaly_metrics_nonempty [of inp] default_metrics_nonempty [of strf inp]
  by (auto simp: calculate_dispatch_def split: if_splits)

lemma calculate_try_success:
  "calculate_try fmt2f strf vo inp = Inr out \<Longrightarrow>
     \<exists>r. calculate_dispatch fmt2f strf inp = Inr r
        \<and> out = \<lparr>co_metrics = fst r, co_insights = snd r\<rparr>"
  by (auto simp: calculate_try_def Let_def split: sum.splits prod.splits)

lemma calculate_success:
  "calculate fmt2f strf vo inp = Inr out \<Longrightarrow> calculate_try fmt2f strf vo inp = Inr out"
  by (auto simp: calculate_def split: sum.splits if_splits)

subsection \<open>The anomaly branch\<close>

text \<open>
  What the branch computes: the flag is raised exactly for a score that is present,
  nonzero and below 0.3.
\<close>

lemma anomaly_flagged_iff:
  "(fst (anomaly_detection inp) ''is_anomaly'' = Some 1)
     = (\<exists>s. ci_score inp = Some s \<and> s \<noteq> 0 \<and> s < 0.3)"
  by (auto simp: anomaly_detection_def truthy_def Let_def split: option.splits)

lemma anomaly_score_025:
  "anomaly_detection \<lparr>ci_value = v, ci_score = Some 0.25, ci_threshold = t, ci_analysis_type = a\<rparr>
     = ([''anomaly_score'' \<mapsto> 0.2, ''is_anomaly'' \<mapsto> 1, ''confidence'' \<mapsto> 0.85],
        [msg_anomaly_detected, msg_review_needed])"
  by (simp add: anomaly_detection_def truthy_def)

lemma anomaly_score_05:
  "anomaly_detection \<lparr>ci_value = v, ci_score = Some 0.5, ci_threshold = t, ci_analysis_type = a\<rparr>
     = ([''anomaly_score'' \<mapsto> 0.8, ''is_anomaly'' \<mapsto> 0, ''confidence'' \<mapsto> 0.85],
        [msg_normal_range])"
  by (simp add: anomaly_detection_def truthy_def)

text \<open>
  Claim C2: the anomaly branch flags its input exactly when the score is present and
  below 0.3. The score 0.0 is present, passes validation and is below 0.3, yet the
  truthiness test of the guard treats it as absent: the calculation succeeds with
  \<open>is_anomaly = 0.0\<close>, \<open>anomaly_score = 0.8\<close> and the normal-range insight.
\<close>

theorem anomaly_zero_score_not_flagged:
  "calculate fmt2f strf (\<lambda>output. Inr ())
     \<lparr>ci_value = 1, ci_score = Some 0, ci_threshold = None,
      ci_analysis_type = Some ''anomaly''\<rparr>
     = Inr \<lparr>co_metrics = [''anomaly_score'' \<mapsto> 0.8, ''is_anomaly'' \<mapsto> 0,
                          ''confidence'' \<mapsto> 0.85],
            co_insights = [msg_normal_range]\<rparr>"
  by (simp add: calc_defs)

subsection \<open>The statistical branch\<close>

text \<open>
  What the branch computes: two insights, and a third one exactly when threshold and
  score are both present and nonzero and the score exceeds the threshold; and an
  \<open>OverflowError\<close> when the variance is out of the range of the doubles.
\<close>

lemma statistical_insights_length:
  "statistical_analysis fmt2f inp = Inr r \<Longrightarrow>
   length (snd r)
     = (if (\<exists>s t. ci_score inp = Some s \<and> ci_threshold inp = Some t
                 \<and> s \<noteq> 0 \<and> t \<noteq> 0 \<and> t < s) then 3 else 2)"
  by (auto simp: statistical_analysis_def truthy_def Let_def split: option.splits sum.splits)

lemma statistical_example_three:
  "statistical_analysis fmt2f
     \<lparr>ci_value = 10, ci_score = Some 0.9, ci_threshold = Some 0.5, ci_analysis_type = a\<rparr>
   = Inr ([''mean'' \<mapsto> 10, ''median'' \<mapsto> 9.5, ''std_dev'' \<mapsto> 1, ''variance'' \<mapsto> 1],
      [msg_normal_distribution, msg_mean_prefix @ fmt2f 10 @ msg_mean_suffix,
       msg_score_open @ fmt2f 0.9 @ msg_threshold_open @ fmt2f 0.5 @ msg_exceeds])"
  by (simp add: statistical_analysis_def truthy_def float_pow2_def float_max_def)

lemma statistical_example_two:
  "statistical_analysis fmt2f
     \<lparr>ci_value = 10, ci_score = None, ci_threshold = None, ci_analysis_type = a\<rparr>
   = Inr ([''mean'' \<mapsto> 10, ''median'' \<mapsto> 9.5, ''std_dev'' \<mapsto> 1, ''variance'' \<mapsto> 1],
      [msg_normal_distribution, msg_mean_prefix @ fmt2f 10 @ msg_mean_suffix])"
  by (simp add: statistical_analysis_def truthy_def float_pow2_def float_max_def)

lemma float_max_less: "float_max < 2 ^ 1024"
proof -
  have "(2 ^ 53 - 1) * (2::real) ^ 971 < 2 ^ 53 * 2 ^ 971"
    by (intro mult_strict_right_mono) simp_all
  also have "\<dots> = 2 ^ 1024" by (simp add: power_add [symmetric])
  finally show ?thesis by (simp add: float_max_def)
qed

lemma huge_value_square: "(2::real) ^ 1024 \<le> (huge_value * 0.1) ^ 2"
proof -
  have "(100::real) \<le> 2 ^ 7" by simp
  also have "\<dots> \<le> 2 ^ 176" by (intro power_increasing) simp_all
  finally have h: "(100::real) \<le> 2 ^ 176" .
  have "((2::real) ^ 600 * 0.1) ^ 2 = 2 ^ 1200 / 100"
    by (simp add: power_mult_distrib power_divide power_mult [symmetric])
  also have "\<dots> = 2 ^ 1024 * (2 ^ 176 / 100)"
    by (simp add: power_add [symmetric])
  also have "\<dots> \<ge> 2 ^ 1024 * 1"
    using h by (intro mult_left_mono) simp_all
  finally show ?thesis by (simp add: huge_value_def)
qed

lemma huge_value_nonneg: "\<not> huge_value < 0"
  by (simp add: huge_value_def)

lemma float_pow2_huge_value:
  "float_pow2 (huge_value * 0.1)
     = Inl \<lparr>exn_kind = OverflowError, exn_message = overflow_message, exn_details = Map.empty\<rparr>"
proof -
  from float_max_less huge_value_square have "float_max < (huge_value * 0.1) ^ 2"
    by (rule less_le_trans)
  then show ?thesis unfolding float_pow2_def by (rule if_P)
qed

lemma statistical_overflow:
  "statistical_analysis fmt2f
     \<lparr>ci_value = huge_value, ci_score = s, ci_threshold = t, ci_analysis_type = a\<rparr>
   = Inl \<lparr>exn_kind = OverflowError, exn_message = overflow_message, exn_details = Map.empty\<rparr>"
  unfolding statistical_analysis_def
  by (simp only: calculator_input.simps float_pow2_huge_value sum.case)

lemma calculate_try_overflow:
  "calculate_try fmt2f strf vo
     \<lparr>ci_value = huge_value, ci_score = None, ci_threshold = None,
      ci_analysis_type = Some ''statistical''\<rparr>
   = Inl \<lparr>exn_kind = OverflowError, exn_message = overflow_message, exn_details = Map.empty\<rparr>"
  by (simp add: calculate_try_def calculator_validate_input_def huge_value_nonneg
      calculate_dispatch_def statistical_overflow)

text \<open>
  Claim C5: the threshold-comparison insight is appended exactly when threshold and
  score are both present and the score exceeds the threshold. With threshold 0.0 and
  score 0.5 both are present and 0.5 > 0.0, yet the truthiness test of the guard treats
  the threshold as absent: the calculation succeeds with the two fixed insights only.
\<close>

theorem statistical_zero_threshold_no_insight:
  "calculate fmt2f strf (\<lambda>output. Inr ())
     \<lparr>ci_value = 10, ci_score = Some 0.5, ci_threshold = Some 0,
      ci_analysis_type = Some ''statistical''\<rparr>
     = Inr \<lparr>co_metrics = [''mean'' \<mapsto> 10, ''median'' \<mapsto> 9.5, ''std_dev'' \<mapsto> 1,
                          ''variance'' \<mapsto> 1],
            co_insights = [msg_normal_distribution,
                           msg_mean_prefix @ fmt2f 10 @ msg_mean_suffix]\<rparr>"
  by (simp add: calc_defs)

subsection \<open>Validation and non-empty metrics\<close>

text \<open>
  Claim C6: for a negative value, or a score present and outside [0, 1], validation
  fails, the block ends with that failure whatever the analysis branches and the output
  check are, and \<open>calculate\<close> returns a \<open>CalculatorException\<close> and no output.
\<close>

theorem calculate_rejects_invalid_input:
  assumes "ci_value inp < 0 \<or> (\<exists>s. ci_score inp = Some s \<and> (s < 0 \<or> 1 < s))"
  shows "\<exists>e. calculator_validate_input inp = Inl e
           \<and> exn_kind e = CalculatorException
           \<and> calculate_try fmt2f strf vo inp = Inl e
           \<and> calculate fmt2f strf vo inp =
               Inl (raise_exn CalculatorException
                      (''Analysis calculation failed: '' @ exn_message e)
                      [''analysis_type'' \<mapsto> analysis_type_val inp])"
proof -
  have "\<exists>e. calculator_validate_input inp = Inl e"
  proof (cases "ci_value inp < 0")
    case True
    then show ?thesis by (simp add: calculator_validate_input_def)
  next
    case False
    with assms obtain s where "ci_score inp = Some s" "s < 0 \<or> 1 < s" by auto
    with False show ?thesis by (auto simp: calculator_validate_input_def)
  qed
  then obtain e where e: "calculator_validate_input inp = Inl e" ..
  then have k: "exn_kind e = CalculatorException" by (rule calculator_validate_input_kind)
  from e have "calculate_try fmt2f strf vo inp = Inl e"
    by (simp add: calculate_try_def)
  with e k show ?thesis
    by (auto simp: calculate_def str_exn_def)
qed

theorem calculate_rejects_invalid_input_witness:
  "(\<exists>e. calculate (\<lambda>x. []) (\<lambda>x. []) (\<lambda>output. Inr ())
          \<lparr>ci_value = - 1, ci_score = None, ci_threshold = None,
           ci_analysis_type = Some ''statistical''\<rparr> = Inl e)
   \<and> (\<exists>e. calculate (\<lambda>x. []) (\<lambda>x. []) (\<lambda>output. Inr ())
          \<lparr>ci_value = 5, ci_score = Some 1.5, ci_threshold = None,
           ci_analysis_type = Some ''anomaly''\<rparr> = Inl e)"
proof -
  have h1: "ci_value \<lparr>ci_value = - 1, ci_score = None, ci_threshold = None,
           ci_analysis_type = Some ''statistical''\<rparr> < 0
        \<or> (\<exists>s. ci_score \<lparr>ci_value = - 1, ci_score = None, ci_threshold = None,
           ci_analysis_type = Some ''statistical''\<rparr> = Some s \<and> (s < 0 \<or> 1 < s))"
    by simp
  have h2: "ci_value \<lparr>ci_value = 5, ci_score = Some 1.5, ci_threshold = None,
           ci_analysis_type = Some ''anomaly''\<rparr> < 0
        \<or> (\<exists>s. ci_score \<lparr>ci_value = 5, ci_score = Some 1.5, ci_threshold = None,
           ci_analysis_type = Some ''anomaly''\<rparr> = Some s \<and> (s < 0 \<or> 1 < s))"
    by (intro disjI2 exI [of _ "1.5"]) simp
  from calculate_rejects_invalid_input [OF h1] calculate_rejects_invalid_input [OF h2]
  show ?thesis by blast
qed

text \<open>
  Claim C7: every successful \<open>calculate\<close>, whatever the analysis type, returns a
  metrics map with at least one entry.
\<close>

theorem calculate_success_metrics_nonempty:
  assumes "calculate fmt2f strf vo inp = Inr out"
  shows "co_metrics out \<noteq> Map.empty"
proof -
  from assms have "calculate_try fmt2f strf vo inp = Inr out" by (rule calculate_success)
  then obtain r where "calculate_dispatch fmt2f strf inp = Inr r"
    and "out = \<lparr>co_metrics = fst r, co_insights = snd r\<rparr>"
    by (auto dest: calculate_try_success)
  then show ?thesis by (simp add: dispatch_metrics_nonempty)
qed

theorem calculate_success_metrics_nonempty_witness:
  "calculate (\<lambda>x. []) (\<lambda>x. []) (\<lambda>output. Inr ())
     \<lparr>ci_value = 10, ci_score = Some 0.25, ci_threshold = None,
      ci_analysis_type = Some ''anomaly''\<rparr>
   = Inr \<lparr>co_metrics = [''anomaly_score'' \<mapsto> 0.2, ''is_anomaly'' \<mapsto> 1, ''confidence'' \<mapsto> 0.85],
          co_insights = [msg_anomaly_detected, msg_review_needed]\<rparr>
   \<and> co_metrics \<lparr>co_metrics = [''anomaly_score'' \<mapsto> 0.2, ''is_anomaly'' \<mapsto> 1, ''confidence'' \<mapsto> 0.85],
          co_insights = [msg_anomaly_detected, msg_review_needed]\<rparr> \<noteq> Map.empty"
proof -
  have h: "calculate (\<lambda>x. []) (\<lambda>x. []) (\<lambda>output. Inr ())
     \<lparr>ci_value = 10, ci_score = Some 0.25, ci_threshold = None,
      ci_analysis_type = Some ''anomaly''\<rparr>
   = Inr \<lparr>co_metrics = [''anomaly_score'' \<mapsto> 0.2, ''is_anomaly'' \<mapsto> 1, ''confidence'' \<mapsto> 0.85],
          co_insights = [msg_anomaly_detected, msg_review_needed]\<rparr>"
    by (simp add: calc_defs)
  from calculate_success_metrics_nonempty [OF h] h show ?thesis by blast
qed

subsection \<open>Failure wrapping\<close>




subsection \<open>The default branch\<close>

text \<open>
  Claim C10: the default branch returns exactly the two metrics \<open>value\<close> and \<open>score\<close>;
  a missing score and a score of 0.0 are both echoed as 0.0, a missing score is rendered
  as \<open>N/A\<close> in the second insight, and every analysis type other than
  \<open>statistical\<close>, \<open>trend\<close> and \<open>anomaly\<close>, the absent one included, selects this
  branch.
\<close>

theorem default_analysis_echoes_value_and_score:
  "fst (default_analysis strf inp)
     = [''value'' \<mapsto> ci_value inp,
        ''score'' \<mapsto> (case ci_score inp of None \<Rightarrow> 0 | Some s \<Rightarrow> s)]
   \<and> fst (default_analysis strf (inp\<lparr>ci_score := None\<rparr>)) ''score'' = Some 0
   \<and> fst (default_analysis strf (inp\<lparr>ci_score := Some 0\<rparr>)) ''score'' = Some 0
   \<and> snd (default_analysis strf (inp\<lparr>ci_score := None\<rparr>))
       = [msg_value_label @ strf (ci_value inp), msg_score_label @ ''N/A'']
   \<and> calculate_dispatch fmt2f strf (inp\<lparr>ci_analysis_type := None\<rparr>)
       = Inr (default_analysis strf (inp\<lparr>ci_analysis_type := None\<rparr>))
   \<and> calculate_dispatch fmt2f strf (inp\<lparr>ci_analysis_type := Some ''other''\<rparr>)
       = Inr (default_analysis strf (inp\<lparr>ci_analysis_type := Some ''other''\<rparr>))
   \<and> (ci_analysis_type inp \<noteq> Some ''statistical'' \<and> ci_analysis_type inp \<noteq> Some ''trend''
        \<and> ci_analysis_type inp \<noteq> Some ''anomaly'' \<longrightarrow>
        calculate_dispatch fmt2f strf inp = Inr (default_analysis strf inp))
   \<and> (calculator_validate_input inp = Inr ()
        \<and> ci_analysis_type inp \<noteq> Some ''statistical'' \<and> ci_analysis_type inp \<noteq> Some ''trend''
        \<and> ci_analysis_type inp \<noteq> Some ''anomaly'' \<longrightarrow>
        calculate fmt2f strf (\<lambda>output. Inr ()) inp
          = Inr \<lparr>co_metrics = fst (default_analysis strf inp),
                 co_insights = snd (default_analysis strf inp)\<rparr>)"
  by (simp add: default_analysis_def calculate_dispatch_def calculate_def calculate_try_def
      split: option.splits)

theorem default_analysis_echoes_value_and_score_witness:
  "calculate_dispatch (\<lambda>x. []) (\<lambda>x. ''42.5'')
     \<lparr>ci_value = 42.5, ci_score = None, ci_threshold = None,
      ci_analysis_type = Some ''Anomaly''\<rparr>
   = Inr ([''value'' \<mapsto> 42.5, ''score'' \<mapsto> 0],
          [msg_value_label @ ''42.5'', msg_score_label @ ''N/A''])
   \<and> calculate (\<lambda>x. []) (\<lambda>x. ''42.5'') (\<lambda>output. Inr ())
     \<lparr>ci_value = 42.5, ci_score = None, ci_threshold = None,
      ci_analysis_type = Some ''Anomaly''\<rparr>
   = Inr \<lparr>co_metrics = [''value'' \<mapsto> 42.5, ''score'' \<mapsto> 0],
          co_insights = [msg_value_label @ ''42.5'', msg_score_label @ ''N/A'']\<rparr>"
proof -
  let ?inp = "\<lparr>ci_value = 42.5, ci_score = None, ci_threshold = None,
      ci_analysis_type = Some ''Anomaly''\<rparr>"
  have h: "calculator_validate_input ?inp = Inr ()
        \<and> ci_analysis_type ?inp \<noteq> Some ''statistical''
        \<and> ci_analysis_type ?inp \<noteq> Some ''trend''
        \<and> ci_analysis_type ?inp \<noteq> Some ''anomaly''"
    by (simp add: calculator_validate_input_def)
  from default_analysis_echoes_value_and_score [of "\<lambda>x. ''42.5''" ?inp "\<lambda>x. []"] h
  show ?thesis by (simp add: default_analysis_def)
qed


section \<open>Properties of the provider\<close>

lemma provide_total:
  "provide provider_validate_input inp
     = Inr \<lparr>po_id = pi_data_id inp,
            po_name = ''Sample Data '' @ str_int (pi_data_id inp),
            po_value = 42.5,
            po_score = Some 0.85\<rparr>"
  by (simp add: provide_def provide_try_def provide_block_def provider_validate_input_def)

lemma provide_success:
  "provide validate inp = Inr out \<Longrightarrow>
     out = \<lparr>po_id = pi_data_id inp,
            po_name = ''Sample Data '' @ str_int (pi_data_id inp),
            po_value = 42.5,
            po_score = Some 0.85\<rparr>"
  by (auto simp: provide_def provide_try_def provide_block_def split: sum.splits if_splits)

lemma get_multiple_with_success:
  "get_multiple_with p ids = Inr outs \<Longrightarrow>
     length outs = length ids \<and> (\<forall>k<length ids. p \<lparr>pi_data_id = ids ! k\<rparr> = Inr (outs ! k))"
proof (induction ids arbitrary: outs)
  case Nil
  then show ?case by simp
next
  case (Cons i ids)
  from Cons.prems obtain out outs' where
    o: "p \<lparr>pi_data_id = i\<rparr> = Inr out" and
    r: "get_multiple_with p ids = Inr outs'" and
    e: "outs = out # outs'"
    by (auto split: sum.splits)
  from Cons.IH [OF r] o e show ?case
    by (auto simp: nth_Cons split: nat.splits)
qed

lemma get_multiple_with_fail_fast:
  "k < length ids \<Longrightarrow> p \<lparr>pi_data_id = ids ! k\<rparr> = Inl e \<Longrightarrow>
   (\<forall>j<k. \<not> isl (p \<lparr>pi_data_id = ids ! j\<rparr>)) \<Longrightarrow> get_multiple_with p ids = Inl e"
proof (induction ids arbitrary: k)
  case Nil
  then show ?case by simp
next
  case (Cons i ids)
  show ?case
  proof (cases k)
    case 0
    with Cons.prems show ?thesis by simp
  next
    case (Suc k')
    from Cons.prems Suc have "\<not> isl (p \<lparr>pi_data_id = i\<rparr>)" by fastforce
    then obtain out where o: "p \<lparr>pi_data_id = i\<rparr> = Inr out"
      by (cases "p \<lparr>pi_data_id = i\<rparr>") auto
    from Cons.prems Suc have "k' < length ids" "p \<lparr>pi_data_id = ids ! k'\<rparr> = Inl e"
      "\<forall>j<k'. \<not> isl (p \<lparr>pi_data_id = ids ! j\<rparr>)" by fastforce+
    then have "get_multiple_with p ids = Inl e" by (rule Cons.IH)
    with o show ?thesis by simp
  qed
qed

lemma get_multiple_with_any_failure:
  "\<exists>k<length ids. isl (p \<lparr>pi_data_id = ids ! k\<rparr>) \<Longrightarrow> isl (get_multiple_with p ids)"
proof (induction ids)
  case Nil
  then show ?case by simp
next
  case (Cons i ids)
  show ?case
  proof (cases "p \<lparr>pi_data_id = i\<rparr>")
    case (Inl e)
    then show ?thesis by simp
  next
    case (Inr out)
    from Cons.prems obtain k where
      k: "k < length (i # ids)" "isl (p \<lparr>pi_data_id = (i # ids) ! k\<rparr>)"
      by blast
    with Inr obtain k' where "k = Suc k'" by (cases k) auto
    with k have "k' < length ids \<and> isl (p \<lparr>pi_data_id = ids ! k'\<rparr>)" by simp
    then have "\<exists>k<length ids. isl (p \<lparr>pi_data_id = ids ! k\<rparr>)" by blast
    then have "isl (get_multiple_with p ids)" by (rule Cons.IH)
    with Inr show ?thesis by (auto split: sum.splits)
  qed
qed

lemma get_multiple_success_ids:
  "get_multiple_with (provide validate) ids = Inr outs \<Longrightarrow> map po_id outs = ids"
proof (induction ids arbitrary: outs)
  case Nil
  then show ?case by simp
next
  case (Cons i ids)
  from Cons.prems obtain out outs' where
    o: "provide validate \<lparr>pi_data_id = i\<rparr> = Inr out" and
    r: "get_multiple_with (provide validate) ids = Inr outs'" and
    e: "outs = out # outs'"
    by (auto split: sum.splits)
  from o have "po_id out = i" by (auto dest: provide_success)
  with Cons.IH [OF r] e show ?case by simp
qed

lemma get_multiple_total:
  "get_multiple provider_validate_input ids
     = Inr (map (\<lambda>i. \<lparr>po_id = i, po_name = ''Sample Data '' @ str_int i,
                       po_value = 42.5, po_score = Some 0.85\<rparr>) ids)"
  unfolding get_multiple_def
  by (induction ids) (simp_all add: provide_total)




text \<open>
  Claim C8, as stated: \<open>provide\<close> fails with a \<open>ValidationException\<close> on a non-positive
  identifier. It does not: for the identifiers 0 and -5 it returns the dummy record.
\<close>

theorem provide_accepts_non_positive_id:
  "provide provider_validate_input \<lparr>pi_data_id = 0\<rparr>
     = Inr \<lparr>po_id = 0, po_name = ''Sample Data 0'', po_value = 42.5, po_score = Some 0.85\<rparr>
   \<and> provide provider_validate_input \<lparr>pi_data_id = - 5\<rparr>
     = Inr \<lparr>po_id = - 5, po_name = ''Sample Data -5'', po_value = 42.5, po_score = Some 0.85\<rparr>"
  by (simp add: provide_total str_int_def str_nat.simps digit_char_def)

text \<open>
  Claim C8, amended: \<open>provide\<close> calls \<open>validate_input\<close> before it builds the output;
  the present \<open>validate_input\<close> accepts every identifier, so \<open>provide\<close> returns an output
  for every identifier; and a failure raised by a validation that derives from
  \<^verbatim>\<open>Exception\<close>, other than \<open>NotFoundException\<close>, leaves \<open>provide\<close> as a
  \<open>ProviderException\<close> with \<open>data_id\<close> in its details, not as a
  \<open>ValidationException\<close>, and no output is returned.
\<close>

theorem provide_validation_behaviour:
  "provider_validate_input inp = Inr ()
   \<and> provide provider_validate_input inp
       = Inr \<lparr>po_id = pi_data_id inp,
              po_name = ''Sample Data '' @ str_int (pi_data_id inp),
              po_value = 42.5,
              po_score = Some 0.85\<rparr>
   \<and> (validate inp = Inl e \<and> exn_kind e \<noteq> NotFoundException \<and> is_Exception (exn_kind e) \<longrightarrow>
        provide_block validate inp = Inl e
        \<and> provide_try (provide_block validate) inp =
            Inl \<lparr>exn_kind = ProviderException,
                 exn_message = ''Failed to provide data: '' @ exn_message e,
                 exn_details = [''data_id'' \<mapsto> PyInt (pi_data_id inp)]\<rparr>
        \<and> provide validate inp =
            Inl \<lparr>exn_kind = ProviderException,
                 exn_message = ''Failed to provide data: '' @ exn_message e,
                 exn_details = [''data_id'' \<mapsto> PyInt (pi_data_id inp)]\<rparr>)"
  by (simp add: provide_total provider_validate_input_def provide_def provide_block_def
      provide_try_def raise_exn_def str_exn_def)

theorem provide_validation_behaviour_witness:
  "provide_try (provide_block positive_id_validation) \<lparr>pi_data_id = 0\<rparr>
     = Inl \<lparr>exn_kind = ProviderException,
            exn_message = ''Failed to provide data: data_id must be positive'',
            exn_details = [''data_id'' \<mapsto> PyInt 0]\<rparr>
   \<and> provide positive_id_validation \<lparr>pi_data_id = 0\<rparr>
     = Inl \<lparr>exn_kind = ProviderException,
            exn_message = ''Failed to provide data: data_id must be positive'',
            exn_details = [''data_id'' \<mapsto> PyInt 0]\<rparr>"
proof -
  have h: "positive_id_validation \<lparr>pi_data_id = 0\<rparr>
             = Inl \<lparr>exn_kind = ValidationException, exn_message = ''data_id must be positive'',
                    exn_details = Map.empty\<rparr>
           \<and> exn_kind \<lparr>exn_kind = ValidationException,
                    exn_message = ''data_id must be positive'',
                    exn_details = Map.empty\<rparr> \<noteq> NotFoundException
           \<and> is_Exception (exn_kind \<lparr>exn_kind = ValidationException,
                    exn_message = ''data_id must be positive'',
                    exn_details = Map.empty\<rparr>)"
    by (simp add: positive_id_validation_def raise_exn_def)
  from provide_validation_behaviour [of "\<lparr>pi_data_id = 0\<rparr>" positive_id_validation
      "\<lparr>exn_kind = ValidationException, exn_message = ''data_id must be positive'',
        exn_details = Map.empty\<rparr>"] h
  show ?thesis by simp
qed

text \<open>
  Claim C9: when the batch succeeds, the k-th output is the output of \<open>provide\<close> for
  the k-th identifier (for the provider of the source, the identifiers of the outputs
  are the input list); when \<open>provide\<close> fails on any identifier the batch fails, with
  the error of the first failing identifier, and returns no list.
\<close>

theorem get_multiple_order_and_fail_fast:
  "(get_multiple_with p ids = Inr outs \<longrightarrow>
      length outs = length ids
      \<and> (\<forall>k<length ids. p \<lparr>pi_data_id = ids ! k\<rparr> = Inr (outs ! k)))
   \<and> ((\<exists>k<length ids. isl (p \<lparr>pi_data_id = ids ! k\<rparr>)) \<longrightarrow> isl (get_multiple_with p ids))
   \<and> (k < length ids \<and> p \<lparr>pi_data_id = ids ! k\<rparr> = Inl e
        \<and> (\<forall>j<k. \<not> isl (p \<lparr>pi_data_id = ids ! j\<rparr>)) \<longrightarrow> get_multiple_with p ids = Inl e)
   \<and> (get_multiple validate ids = Inr outs \<longrightarrow> map po_id outs = ids)"
proof (intro conjI impI)
  assume "get_multiple_with p ids = Inr outs"
  then show "length outs = length ids"
    and "\<forall>k<length ids. p \<lparr>pi_data_id = ids ! k\<rparr> = Inr (outs ! k)"
    by (auto dest: get_multiple_with_success)
next
  assume "\<exists>k<length ids. isl (p \<lparr>pi_data_id = ids ! k\<rparr>)"
  then show "isl (get_multiple_with p ids)" by (rule get_multiple_with_any_failure)
next
  assume "k < length ids \<and> p \<lparr>pi_data_id = ids ! k\<rparr> = Inl e
        \<and> (\<forall>j<k. \<not> isl (p \<lparr>pi_data_id = ids ! j\<rparr>))"
  then show "get_multiple_with p ids = Inl e"
    by (auto intro: get_multiple_with_fail_fast)
next
  assume "get_multiple validate ids = Inr outs"
  then show "map po_id outs = ids"
    unfolding get_multiple_def by (rule get_multiple_success_ids)
qed

theorem get_multiple_order_and_fail_fast_witness:
  "get_multiple provider_validate_input [3, 1, 2]
     = Inr [\<lparr>po_id = 3, po_name = ''Sample Data 3'', po_value = 42.5, po_score = Some 0.85\<rparr>,
            \<lparr>po_id = 1, po_name = ''Sample Data 1'', po_value = 42.5, po_score = Some 0.85\<rparr>,
            \<lparr>po_id = 2, po_name = ''Sample Data 2'', po_value = 42.5, po_score = Some 0.85\<rparr>]
   \<and> map po_id
       [\<lparr>po_id = 3, po_name = ''Sample Data 3'', po_value = 42.5, po_score = Some 0.85\<rparr>,
        \<lparr>po_id = 1, po_name = ''Sample Data 1'', po_value = 42.5, po_score = Some 0.85\<rparr>,
        \<lparr>po_id = 2, po_name = ''Sample Data 2'', po_value = 42.5, po_score = Some 0.85\<rparr>]
     = [3, 1, 2]
   \<and> provide provider_validate_input \<lparr>pi_data_id = 1\<rparr>
     = Inr \<lparr>po_id = 1, po_name = ''Sample Data 1'', po_value = 42.5, po_score = Some 0.85\<rparr>
   \<and> get_multiple_with failing_provide [3, 2, 1]
     = Inl (raise_exn NotFoundException ''Data with id 2 not found'' Map.empty)
   \<and> isl (get_multiple_with failing_provide [3, 2, 1])"
proof -
  let ?o3 = "\<lparr>po_id = 3, po_name = ''Sample Data 3'', po_value = 42.5, po_score = Some 0.85\<rparr>"
  let ?o1 = "\<lparr>po_id = 1, po_name = ''Sample Data 1'', po_value = 42.5, po_score = Some 0.85\<rparr>"
  let ?o2 = "\<lparr>po_id = 2, po_name = ''Sample Data 2'', po_value = 42.5, po_score = Some 0.85\<rparr>"
  let ?nf = "raise_exn NotFoundException ''Data with id 2 not found'' Map.empty"
  let ?p = "provide provider_validate_input"
  have s: "get_multiple provider_validate_input [3, 1, 2] = Inr [?o3, ?o1, ?o2]"
    by (simp add: get_multiple_def provide_total str_int_def str_nat.simps digit_char_def)
  then have s': "get_multiple_with ?p [3, 1, 2] = Inr [?o3, ?o1, ?o2]"
    by (simp add: get_multiple_def)
  have f: "(1::nat) < length [3, 2, 1 :: int]
        \<and> failing_provide \<lparr>pi_data_id = [3, 2, 1] ! 1\<rparr> = Inl ?nf
        \<and> (\<forall>j<1. \<not> isl (failing_provide \<lparr>pi_data_id = [3, 2, 1] ! j\<rparr>))"
    by (simp add: failing_provide_def provide_total)
  then have a: "\<exists>k<length [3, 2, 1 :: int]. isl (failing_provide \<lparr>pi_data_id = [3, 2, 1] ! k\<rparr>)"
    by (intro exI [of _ 1]) simp
  have "\<forall>k<length [3, 1, 2 :: int].
          ?p \<lparr>pi_data_id = [3, 1, 2] ! k\<rparr> = Inr ([?o3, ?o1, ?o2] ! k)"
    using get_multiple_order_and_fail_fast [of ?p "[3, 1, 2]" "[?o3, ?o1, ?o2]"] s' by blast
  then have "(1::nat) < length [3, 1, 2 :: int] \<longrightarrow>
          ?p \<lparr>pi_data_id = [3, 1, 2] ! 1\<rparr> = Inr ([?o3, ?o1, ?o2] ! 1)"
    by (rule spec)
  then have order: "?p \<lparr>pi_data_id = 1\<rparr> = Inr ?o1" by simp
  have ids: "map po_id [?o3, ?o1, ?o2] = [3, 1, 2]"
    using get_multiple_order_and_fail_fast [of _ "[3, 1, 2]" "[?o3, ?o1, ?o2]" _ _
        provider_validate_input] s by blast
  have ff: "get_multiple_with failing_provide [3, 2, 1] = Inl ?nf"
    using get_multiple_order_and_fail_fast [of failing_provide "[3, 2, 1]" _ 1 ?nf] f by blast
  have tot: "isl (get_multiple_with failing_provide [3, 2, 1])"
    using get_multiple_order_and_fail_fast [of failing_provide "[3, 2, 1]"] a by blast
  from s ids order ff tot show ?thesis by blast
qed


section \<open>Properties of the boundary\<close>

text \<open>
  Claim C1, as stated: a failure that stems from a \<open>NotFoundException\<close> leaves the
  endpoint with status 404. It does not: the endpoint raises an HTTP error with status
  400 for it.
\<close>

theorem analyze_data_not_found_status_400:
  "analyze_data
     (\<lambda>request user_id. failure_of
        (raise_exn NotFoundException ''Data with id 7 not found'' [''data_id'' \<mapsto> PyInt 7]))
     example_request None
   = (Inl \<lparr>http_status_code = 400, http_detail = ''Data with id 7 not found''\<rparr>
        :: http_exception + unit)
   \<and> analyze_data
     (\<lambda>request user_id. failure_of
        (raise_exn NotFoundException ''Data with id 7 not found'' [''data_id'' \<mapsto> PyInt 7]))
     example_request None
   \<noteq> (Inl \<lparr>http_status_code = 404, http_detail = ''Data with id 7 not found''\<rparr>
        :: http_exception + unit)"
  by (simp add: analyze_data_def failure_of_def raise_exn_def HTTP_400_BAD_REQUEST_def)

text \<open>
  Claim C1, amended: when \<open>execute\<close> returns a failure, the endpoint raises an HTTP
  error with the fixed status 400, whatever the kind of the error, and with the
  failure's message as its detail; a success returns the data. The status read from the
  exception and the body \<open>{error: message, details: details}\<close> are those of the
  application-level handler for an application exception that reaches it.
\<close>

theorem analyze_data_failure_fixed_status:
  "analyze_data (\<lambda>request user_id. Failure err det) request current_user
     = Inl \<lparr>http_status_code = 400, http_detail = err\<rparr>
   \<and> analyze_data (\<lambda>request user_id. Success d) request current_user = Inr d
   \<and> resp_status_code (application_exception_handler status_code exc) = status_code exc
   \<and> resp_content (application_exception_handler status_code exc)
       = [(''error'', BodyStr (exn_message exc)), (''details'', BodyMap (exn_details exc))]"
  by (simp add: analyze_data_def HTTP_400_BAD_REQUEST_def application_exception_handler_def)

end
